theory Spec2Isabelle
  imports Main "HOL-Library.Sublist"
begin

section \<open>Plugin repository service: version resolution and download options\<close>

text \<open>
  A shallow embedding of \<^verbatim>\<open>pkg/plugins/repository/service.go\<close>. Go strings are byte
  sequences and are modelled as \<^typ>\<open>string\<close> (a list of 8-bit characters). A Go map
  that may be \<^verbatim>\<open>nil\<close> is an optional association list: \<open>None\<close> is the nil map,
  \<open>Some []\<close> the map that is present and has no key. A lookup is \<^const>\<open>map_of\<close>;
  a \<^verbatim>\<open>range\<close> loop visits the keys of the list in its order, which stands for
  whichever order the Go runtime picks.
\<close>

subsection \<open>Data model\<close>

text \<open>
  Modelled from the spec: the struct declarations \<^verbatim>\<open>ArchMeta\<close>, \<^verbatim>\<open>Version\<close>,
  \<^verbatim>\<open>Plugin\<close>, \<^verbatim>\<open>PluginDownloadOptions\<close>, \<^verbatim>\<open>CompatabilityOpts\<close> and the two
  error structs live in a file of the package that is not part of the sources at hand.
  The records below carry the fields that \<^verbatim>\<open>service.go\<close> reads and writes.
\<close>

record ArchMeta =
  SHA256 :: string

record Version =
  Version :: string
  Arch :: "(string \<times> ArchMeta) list option"

record Plugin =
  ID :: string
  Versions :: "Version list"

record PluginDownloadOptions =
  OptVersion :: string
  Checksum :: string
  PluginZipURL :: string

record CompatabilityOpts =
  GrafanaVersion :: string

record Service =
  repoURL :: string

text \<open>The fields of Go's \<^verbatim>\<open>url.URL\<close> that the service touches.\<close>

record URL =
  Scheme :: string
  Host :: string
  Path :: string

text \<open>
  \<^verbatim>\<open>ErrVersionUnsupported\<close> and \<^verbatim>\<open>ErrVersionNotFound\<close> carry, in this order,
  \<^verbatim>\<open>PluginID\<close>, \<^verbatim>\<open>RequestedVersion\<close> and \<^verbatim>\<open>SystemInfo\<close>. \<open>ErrOpaque\<close> stands for
  the errors of the URL parser, the transport and the JSON decoder, which the service
  passes on unchanged.
\<close>

datatype error =
  ErrVersionUnsupported string string string
| ErrVersionNotFound string string string
| ErrOpaque string

fun errorFields :: "error \<Rightarrow> string list" where
  "errorFields (ErrVersionUnsupported pluginID requested sysInfo) = [pluginID, requested, sysInfo]"
| "errorFields (ErrVersionNotFound pluginID requested sysInfo) = [pluginID, requested, sysInfo]"
| "errorFields (ErrOpaque msg) = [msg]"

text \<open>What the service writes to its logger: a formatted debug line, or an error line with its cause.\<close>

datatype logLine =
  Debugf string
| LogError string error

fun logText :: "logLine \<Rightarrow> string" where
  "logText (Debugf msg) = msg"
| "logText (LogError msg err) = msg"

text \<open>
  The collaborators of the service that are not part of the sources at hand are parameters:
  the platform string \<^verbatim>\<open>osAndArchString()\<close>, \<^verbatim>\<open>SystemInfo\<close>, Go's \<^verbatim>\<open>url.Parse\<close> and
  \<^verbatim>\<open>path.Join\<close>, the HTTP client's \<^verbatim>\<open>sendReq\<close> and \<^verbatim>\<open>json.Unmarshal\<close> into a
  \<^verbatim>\<open>Plugin\<close>.
\<close>

record Env =
  osAndArchString :: string
  SystemInfo :: "string \<Rightarrow> string"
  urlParse :: "string \<Rightarrow> error + URL"
  pathJoin :: "string list \<Rightarrow> string"
  sendReq :: "URL \<Rightarrow> string \<Rightarrow> error + string"
  jsonUnmarshal :: "string \<Rightarrow> error + Plugin"

subsection \<open>The service\<close>

definition grafanaComAPIRoot :: string where
  "grafanaComAPIRoot = ''https://grafana.com/api/plugins''"

definition New :: "string \<Rightarrow> Service" where
  "New url = \<lparr>repoURL = url\<rparr>"

definition ProvideService :: Service where
  "ProvideService = New grafanaComAPIRoot"

text \<open>\<^verbatim>\<open>strings.ReplaceAll(version, " ", "")\<close>: every byte 0x20 is dropped, nothing else.\<close>

definition removeSpaces :: "string \<Rightarrow> string" where
  "removeSpaces s = filter (\<lambda>c. c \<noteq> CHR '' '') s"

text \<open>\<^verbatim>\<open>strings.HasPrefix\<close>.\<close>

definition HasPrefix :: "string \<Rightarrow> string \<Rightarrow> bool" where
  "HasPrefix s p = (take (length p) s = p)"

definition normalizeVersion :: "string \<Rightarrow> string" where
  "normalizeVersion version =
     (let normalized = removeSpaces version in
      if HasPrefix normalized ''^'' \<or> HasPrefix normalized ''v''
      then drop 1 normalized
      else normalized)"

text \<open>The loop of \<^verbatim>\<open>supportsCurrentArch\<close> over the keys of the map.\<close>

fun rangeArch :: "string \<Rightarrow> string list \<Rightarrow> bool" where
  "rangeArch plat [] = False"
| "rangeArch plat (arch # rest) =
     (if arch = plat \<or> arch = ''any'' then True else rangeArch plat rest)"

definition supportsCurrentArch :: "string \<Rightarrow> Version \<Rightarrow> bool" where
  "supportsCurrentArch plat version =
     (case Arch version of
        None \<Rightarrow> True
      | Some m \<Rightarrow> rangeArch plat (map fst m))"

fun latestSupported :: "string \<Rightarrow> Version list \<Rightarrow> Version option" where
  "latestSupported plat [] = None"
| "latestSupported plat (v # vs) =
     (if supportsCurrentArch plat v then Some v else latestSupported plat vs)"

definition latestSupportedVersion :: "string \<Rightarrow> Plugin \<Rightarrow> Version option" where
  "latestSupportedVersion plat plugin = latestSupported plat (Versions plugin)"

text \<open>
  The search loop of \<^verbatim>\<open>selectVersion\<close>: \<^verbatim>\<open>ver\<close> starts as the zero \<^verbatim>\<open>Version\<close> and
  becomes the first entry whose version string equals the request.
\<close>

definition zeroVersion :: Version where
  "zeroVersion = \<lparr>Version = [], Arch = None\<rparr>"

fun findVersion :: "Version list \<Rightarrow> string \<Rightarrow> Version" where
  "findVersion [] version = zeroVersion"
| "findVersion (v # vs) version =
     (if Version v = version then v else findVersion vs version)"

definition notFoundLog :: "string \<Rightarrow> string \<Rightarrow> string \<Rightarrow> logLine" where
  "notFoundLog pluginID version fallback =
     Debugf (''Requested plugin version '' @ pluginID @ '' v'' @ version
             @ '' not found but potential fallback version '' @ [CHR 0x27] @ fallback
             @ [CHR 0x27] @ '' was found'')"

definition unsupportedLog :: "string \<Rightarrow> string \<Rightarrow> string \<Rightarrow> logLine" where
  "unsupportedLog pluginID version fallback =
     Debugf (''Requested plugin version '' @ pluginID @ '' v'' @ version
             @ '' is not supported on your system but potential fallback version ''
             @ [CHR 0x27] @ fallback @ [CHR 0x27] @ '' was found'')"

text \<open>\<^verbatim>\<open>selectVersion\<close> returns the lines it logged and its result.\<close>

definition selectVersion ::
  "Env \<Rightarrow> Plugin \<Rightarrow> string \<Rightarrow> string \<Rightarrow> logLine list \<times> (error + Version)" where
  "selectVersion env plugin version0 grafanaVersion =
     (let version = normalizeVersion version0 in
      case latestSupportedVersion (osAndArchString env) plugin of
        None \<Rightarrow>
          ([], Inl (ErrVersionUnsupported (ID plugin) version (SystemInfo env grafanaVersion)))
      | Some latestForArch \<Rightarrow>
          if version = [] then ([], Inr latestForArch)
          else
            let ver = findVersion (Versions plugin) version in
            if length (Version ver) = 0 then
              ([notFoundLog (ID plugin) version (Version latestForArch)],
               Inl (ErrVersionNotFound (ID plugin) version (SystemInfo env grafanaVersion)))
            else if \<not> supportsCurrentArch (osAndArchString env) ver then
              ([unsupportedLog (ID plugin) version (Version latestForArch)],
               Inl (ErrVersionUnsupported (ID plugin) version (SystemInfo env grafanaVersion)))
            else ([], Inr ver))"

text \<open>The URL that \<^verbatim>\<open>pluginMetadata\<close> requests: the parsed \<^verbatim>\<open>repoURL\<close> with its path extended.\<close>

definition metadataURL :: "Env \<Rightarrow> Service \<Rightarrow> string \<Rightarrow> error + URL" where
  "metadataURL env s pluginID =
     (case urlParse env (repoURL s) of
        Inl err \<Rightarrow> Inl err
      | Inr u \<Rightarrow> Inr (u\<lparr>Path := pathJoin env [Path u, ''repo'', pluginID]\<rparr>))"

definition fetchLog :: "string \<Rightarrow> string \<Rightarrow> logLine" where
  "fetchLog pluginID repo =
     Debugf (''Fetching metadata for plugin '' @ [CHR 0x22] @ pluginID @ [CHR 0x22]
             @ '' from repo '' @ repo)"

definition pluginMetadata ::
  "Env \<Rightarrow> Service \<Rightarrow> string \<Rightarrow> string \<Rightarrow> logLine list \<times> (error + Plugin)" where
  "pluginMetadata env s pluginID grafanaVersion =
     (let l = [fetchLog pluginID (repoURL s)] in
      case metadataURL env s pluginID of
        Inl err \<Rightarrow> (l, Inl err)
      | Inr u \<Rightarrow>
          (case sendReq env u grafanaVersion of
             Inl err \<Rightarrow> (l, Inl err)
           | Inr body \<Rightarrow>
               (case jsonUnmarshal env body of
                  Inl err \<Rightarrow>
                    (l @ [LogError ''Failed to unmarshal plugin repo response error'' err],
                     Inl err)
                | Inr data \<Rightarrow> (l, Inr data))))"

text \<open>
  The second half of \<^verbatim>\<open>GetDownloadOptions\<close>, from the selected version on. A lookup of
  a key that the map lacks gives the zero \<^verbatim>\<open>ArchMeta\<close>, whose hash is empty.
\<close>

definition zeroArchMeta :: ArchMeta where
  "zeroArchMeta = \<lparr>SHA256 = []\<rparr>"

definition checksumFor :: "string \<Rightarrow> Version \<Rightarrow> string" where
  "checksumFor plat v =
     (case Arch v of
        None \<Rightarrow> []
      | Some m \<Rightarrow>
          (let archMeta =
                 (case map_of m plat of
                    Some a \<Rightarrow> a
                  | None \<Rightarrow> (case map_of m ''any'' of Some a \<Rightarrow> a | None \<Rightarrow> zeroArchMeta))
           in SHA256 archMeta))"

definition buildDownloadOptions :: "string \<Rightarrow> Version \<Rightarrow> string \<Rightarrow> PluginDownloadOptions" where
  "buildDownloadOptions plat v pluginID =
     \<lparr>OptVersion = Version v,
      Checksum = checksumFor plat v,
      PluginZipURL =
        grafanaComAPIRoot @ ''/'' @ pluginID @ ''/versions/'' @ Version v @ ''/download''\<rparr>"

definition GetDownloadOptions ::
  "Env \<Rightarrow> Service \<Rightarrow> string \<Rightarrow> string \<Rightarrow> CompatabilityOpts
     \<Rightarrow> logLine list \<times> (error + PluginDownloadOptions)" where
  "GetDownloadOptions env s pluginID version opts =
     (case pluginMetadata env s pluginID (GrafanaVersion opts) of
        (l1, Inl err) \<Rightarrow> (l1, Inl err)
      | (l1, Inr plugin) \<Rightarrow>
          (case selectVersion env plugin version (GrafanaVersion opts) of
             (l2, Inl err) \<Rightarrow> (l1 @ l2, Inl err)
           | (l2, Inr v) \<Rightarrow>
               (l1 @ l2, Inr (buildDownloadOptions (osAndArchString env) v pluginID))))"

subsection \<open>Notions of the specification\<close>

text \<open>
  The platform support check in the words of the specification: the map of platform
  checksums is absent, or it contains the current platform key or the key \<open>any\<close>.
\<close>

definition specSupported :: "string \<Rightarrow> Version \<Rightarrow> bool" where
  "specSupported plat v =
     (case Arch v of
        None \<Rightarrow> True
      | Some m \<Rightarrow> plat \<in> fst ` set m \<or> ''any'' \<in> fst ` set m)"

text \<open>
  Normalisation in words: drop every space character, then drop one leading \<open>^\<close> or
  \<open>v\<close> if there is one.
\<close>

definition specNormalize :: "string \<Rightarrow> string" where
  "specNormalize s =
     (case filter (\<lambda>c. c \<noteq> CHR '' '') s of
        [] \<Rightarrow> []
      | c # cs \<Rightarrow> if c = CHR ''^'' \<or> c = CHR ''v'' then cs else c # cs)"

text \<open>An error references a string when the string occurs in one of the fields it carries.\<close>

definition errorMentions :: "error \<Rightarrow> string \<Rightarrow> bool" where
  "errorMentions e s = list_ex (sublist s) (errorFields e)"

definition logMentions :: "logLine list \<Rightarrow> string \<Rightarrow> bool" where
  "logMentions l s = list_ex (\<lambda>line. sublist s (logText line)) l"

subsection \<open>An example registry\<close>

text \<open>
  A concrete environment for the examples: a Linux host, a URL parser that splits
  \<open>scheme://host/path\<close>, a path join with single slashes, and a registry that answers
  every request with one catalog.
\<close>

definition sha :: "string \<Rightarrow> ArchMeta" where
  "sha h = \<lparr>SHA256 = h\<rparr>"

definition entry30 :: Version where
  "entry30 = \<lparr>Version = ''3.0'', Arch = Some [(''windows-amd64'', sha ''c3'')]\<rparr>"

definition entry20 :: Version where
  "entry20 = \<lparr>Version = ''2.0'', Arch = Some [(''any'', sha ''c2'')]\<rparr>"

definition entry10 :: Version where
  "entry10 = \<lparr>Version = ''1.0'', Arch = Some [(''any'', sha ''c1'')]\<rparr>"

definition entry20win :: Version where
  "entry20win = \<lparr>Version = ''2.0'', Arch = Some [(''windows-amd64'', sha ''c4'')]\<rparr>"

definition entryEmptyArch :: Version where
  "entryEmptyArch = \<lparr>Version = ''0.9'', Arch = Some []\<rparr>"

definition exampleCatalog :: Plugin where
  "exampleCatalog = \<lparr>ID = ''test-plugin'', Versions = [entry30, entry20, entry10]\<rparr>"

definition duplicateCatalog :: Plugin where
  "duplicateCatalog = \<lparr>ID = ''test-plugin'', Versions = [entry20, entry20win]\<rparr>"

definition windowsOnlyCatalog :: Plugin where
  "windowsOnlyCatalog = \<lparr>ID = ''test-plugin'', Versions = [entry30]\<rparr>"

definition emptyArchCatalog :: Plugin where
  "emptyArchCatalog = \<lparr>ID = ''test-plugin'', Versions = [entryEmptyArch]\<rparr>"

definition exampleParse :: "string \<Rightarrow> error + URL" where
  "exampleParse s =
     (let scheme = takeWhile (\<lambda>c. c \<noteq> CHR '':'') s;
          rest = drop (length scheme + 3) s
      in Inr \<lparr>Scheme = scheme,
              Host = takeWhile (\<lambda>c. c \<noteq> CHR ''/'') rest,
              Path = dropWhile (\<lambda>c. c \<noteq> CHR ''/'') rest\<rparr>)"

fun exampleJoin :: "string list \<Rightarrow> string" where
  "exampleJoin [] = []"
| "exampleJoin [p] = p"
| "exampleJoin (p # ps) = p @ ''/'' @ exampleJoin ps"

definition exampleEnv :: Env where
  "exampleEnv =
     \<lparr>osAndArchString = ''linux-amd64'',
      SystemInfo = (\<lambda>g. ''grafana: v'' @ g @ '' os: linux arch: amd64''),
      urlParse = exampleParse,
      pathJoin = exampleJoin,
      sendReq = (\<lambda>u g. Inr ''{}''),
      jsonUnmarshal = (\<lambda>body. Inr exampleCatalog)\<rparr>"

definition exampleOpts :: CompatabilityOpts where
  "exampleOpts = \<lparr>GrafanaVersion = ''10.1.0''\<rparr>"

text \<open>A version string with a tab (byte 9) inside.\<close>

definition tabbed20 :: string where
  "tabbed20 = ''2.'' @ [CHR 0x09] @ ''0''"

text \<open>A catalog whose second entry is only built for Windows, and an empty one.\<close>

definition mixedCatalog :: Plugin where
  "mixedCatalog = \<lparr>ID = ''test-plugin'', Versions = [entry10, entry20win]\<rparr>"

definition emptyCatalog :: Plugin where
  "emptyCatalog = \<lparr>ID = ''test-plugin'', Versions = []\<rparr>"

text \<open>A service set up with a repository URL that is not the constant, on the same host.\<close>

definition mirrorService :: Service where
  "mirrorService = New ''https://grafana.com/api/v2/plugins''"

text \<open>A service set up with a repository on another host.\<close>

definition otherHostService :: Service where
  "otherHostService = New ''https://plugins.example.org/api''"

section \<open>Auxiliary lemmas\<close>

lemma rangeArch_iff: "rangeArch plat ks \<longleftrightarrow> plat \<in> set ks \<or> ''any'' \<in> set ks"
  by (induction ks) auto

lemma supportsCurrentArch_spec: "supportsCurrentArch plat v = specSupported plat v"
  by (simp add: supportsCurrentArch_def specSupported_def rangeArch_iff split: option.splits)

text \<open>
  A list with a supported entry splits at its first supported entry, and a list with an
  entry of a given version string at the first such entry.
\<close>

lemma first_supported_split:
  "\<exists>v\<in>set vs. specSupported plat v \<Longrightarrow>
   \<exists>pre v post. vs = pre @ v # post \<and> specSupported plat v
      \<and> (\<forall>u\<in>set pre. \<not> specSupported plat u)"
  by (rule split_list_first_prop)

lemma first_match_split:
  "\<exists>v\<in>set vs. Version v = version \<Longrightarrow>
   \<exists>pre e post. vs = pre @ e # post \<and> Version e = version
      \<and> (\<forall>u\<in>set pre. Version u \<noteq> version)"
  by (rule split_list_first_prop)

lemma latestSupported_first:
  "\<forall>u\<in>set pre. \<not> supportsCurrentArch plat u \<Longrightarrow> supportsCurrentArch plat v
   \<Longrightarrow> latestSupported plat (pre @ v # post) = Some v"
  by (induction pre) auto

lemma latestSupported_None_iff:
  "latestSupported plat vs = None \<longleftrightarrow> (\<forall>v\<in>set vs. \<not> supportsCurrentArch plat v)"
  by (induction vs) auto

lemma latestSupported_Some_ex:
  "\<exists>v\<in>set vs. supportsCurrentArch plat v \<Longrightarrow> \<exists>f. latestSupported plat vs = Some f"
  using latestSupported_None_iff [of plat vs] by (cases "latestSupported plat vs") auto

lemma findVersion_absent:
  "\<forall>v\<in>set vs. Version v \<noteq> version \<Longrightarrow> findVersion vs version = zeroVersion"
  by (induction vs) auto

lemma findVersion_first:
  "\<forall>u\<in>set pre. Version u \<noteq> version \<Longrightarrow> Version e = version
   \<Longrightarrow> findVersion (pre @ e # post) version = e"
  by (induction pre) auto

lemma normalizeVersion_spec: "normalizeVersion s = specNormalize s"
  by (auto simp: normalizeVersion_def specNormalize_def removeSpaces_def HasPrefix_def Let_def
           split: list.splits)

lemma selectVersion_no_fallback:
  "latestSupported (osAndArchString env) (Versions plugin) = None \<Longrightarrow>
   selectVersion env plugin version g =
     ([], Inl (ErrVersionUnsupported (ID plugin) (normalizeVersion version) (SystemInfo env g)))"
  by (simp add: selectVersion_def latestSupportedVersion_def Let_def)

lemma selectVersion_not_found:
  assumes "latestSupported (osAndArchString env) (Versions plugin) = Some f"
    and "normalizeVersion version \<noteq> []"
    and "\<forall>v\<in>set (Versions plugin). Version v \<noteq> normalizeVersion version"
  shows "selectVersion env plugin version g =
     ([notFoundLog (ID plugin) (normalizeVersion version) (Version f)],
      Inl (ErrVersionNotFound (ID plugin) (normalizeVersion version) (SystemInfo env g)))"
  using assms
  by (simp add: selectVersion_def latestSupportedVersion_def findVersion_absent zeroVersion_def Let_def)

lemma selectVersion_found:
  assumes "latestSupported (osAndArchString env) (Versions plugin) = Some f"
    and "normalizeVersion version \<noteq> []"
    and "Versions plugin = pre @ e # post"
    and "\<forall>u\<in>set pre. Version u \<noteq> normalizeVersion version"
    and "Version e = normalizeVersion version"
  shows "selectVersion env plugin version g =
     (if supportsCurrentArch (osAndArchString env) e then ([], Inr e)
      else ([unsupportedLog (ID plugin) (normalizeVersion version) (Version f)],
            Inl (ErrVersionUnsupported (ID plugin) (normalizeVersion version) (SystemInfo env g))))"
  using assms
  by (simp add: selectVersion_def latestSupportedVersion_def findVersion_first Let_def)

lemma sublist_notFoundLog: "sublist fb (logText (notFoundLog p v fb))"
  unfolding notFoundLog_def sublist_def logText.simps
  by (rule exI [of _ "''Requested plugin version '' @ p @ '' v'' @ v
             @ '' not found but potential fallback version '' @ [CHR 0x27]"],
      rule exI [of _ "[CHR 0x27] @ '' was found''"]) simp

lemma sublist_unsupportedLog: "sublist fb (logText (unsupportedLog p v fb))"
  unfolding unsupportedLog_def sublist_def logText.simps
  by (rule exI [of _ "''Requested plugin version '' @ p @ '' v'' @ v
             @ '' is not supported on your system but potential fallback version '' @ [CHR 0x27]"],
      rule exI [of _ "[CHR 0x27] @ '' was found''"]) simp

lemma selectVersion_cases:
  assumes "latestSupported (osAndArchString env) (Versions plugin) = Some f"
    and "normalizeVersion version \<noteq> []"
    and "selectVersion env plugin version g = (l, Inl e)"
  shows "(l = [notFoundLog (ID plugin) (normalizeVersion version) (Version f)]
          \<and> e = ErrVersionNotFound (ID plugin) (normalizeVersion version) (SystemInfo env g))
       \<or> (l = [unsupportedLog (ID plugin) (normalizeVersion version) (Version f)]
          \<and> e = ErrVersionUnsupported (ID plugin) (normalizeVersion version) (SystemInfo env g))"
  using assms
  by (auto simp: selectVersion_def latestSupportedVersion_def Let_def split: if_splits)


lemmas fixture_defs =
  exampleEnv_def exampleCatalog_def duplicateCatalog_def windowsOnlyCatalog_def
  emptyArchCatalog_def mixedCatalog_def emptyCatalog_def mirrorService_def
  otherHostService_def
  entry30_def entry20_def entry10_def entry20win_def entryEmptyArch_def
  sha_def exampleOpts_def tabbed20_def

lemmas service_defs =
  selectVersion_def latestSupportedVersion_def supportsCurrentArch_def normalizeVersion_def
  removeSpaces_def HasPrefix_def Let_def zeroVersion_def GetDownloadOptions_def
  pluginMetadata_def metadataURL_def buildDownloadOptions_def checksumFor_def
  zeroArchMeta_def grafanaComAPIRoot_def New_def ProvideService_def

section \<open>Properties of version resolution\<close>

text \<open>
  C1. With a request that is empty after normalisation, \<^const>\<open>selectVersion\<close> returns the
  first entry in list order that passes the platform support check (the checksum map is
  absent, or has the current platform key or \<open>any\<close>): every entry before the one
  returned fails the check. Every catalog with a supported entry splits in this way
  (\<open>first_supported_split\<close>), and no order on the version strings is needed.
\<close>

theorem selectVersion_empty_request_first_supported:
  assumes "normalizeVersion version = []"
    and "Versions plugin = pre @ v # post"
    and "\<forall>u\<in>set pre. \<not> specSupported (osAndArchString env) u"
    and "specSupported (osAndArchString env) v"
  shows "selectVersion env plugin version g = ([], Inr v)"
  using assms latestSupported_first [of pre "osAndArchString env" v post]
  by (simp add: selectVersion_def latestSupportedVersion_def supportsCurrentArch_spec Let_def)

theorem selectVersion_empty_request_first_supported_witness:
  "normalizeVersion '' '' = []
   \<and> Versions exampleCatalog = [entry30] @ entry20 # [entry10]
   \<and> \<not> specSupported (osAndArchString exampleEnv) entry30
   \<and> specSupported (osAndArchString exampleEnv) entry20
   \<and> selectVersion exampleEnv exampleCatalog '' '' ''10.1.0'' = ([], Inr entry20)"
proof -
  have a: "normalizeVersion '' '' = []"
    by (simp add: normalizeVersion_def removeSpaces_def HasPrefix_def)
  have b: "Versions exampleCatalog = [entry30] @ entry20 # [entry10]"
    by (simp add: exampleCatalog_def)
  have c: "\<not> specSupported (osAndArchString exampleEnv) entry30"
    by (simp add: specSupported_def fixture_defs)
  then have c': "\<forall>u\<in>set [entry30]. \<not> specSupported (osAndArchString exampleEnv) u"
    by simp
  have d: "specSupported (osAndArchString exampleEnv) entry20"
    by (simp add: specSupported_def fixture_defs)
  from selectVersion_empty_request_first_supported [OF a b c' d, of "''10.1.0''"] a b c d
  show ?thesis by blast
qed

text \<open>
  C2. When some entry is supported, the normalised request is not empty and no entry has
  that version string, \<^const>\<open>selectVersion\<close> fails with \<open>ErrVersionNotFound\<close>, which
  carries the plugin id, the normalised request and the system information; no entry is
  returned in its place.
\<close>

theorem selectVersion_unknown_version_not_found:
  assumes "\<exists>v\<in>set (Versions plugin). specSupported (osAndArchString env) v"
    and "normalizeVersion version \<noteq> []"
    and "\<forall>v\<in>set (Versions plugin). Version v \<noteq> normalizeVersion version"
  shows "snd (selectVersion env plugin version g) =
           Inl (ErrVersionNotFound (ID plugin) (normalizeVersion version) (SystemInfo env g))
         \<and> (\<forall>w. snd (selectVersion env plugin version g) \<noteq> Inr w)"
proof -
  from assms(1) obtain f where "latestSupported (osAndArchString env) (Versions plugin) = Some f"
    using latestSupported_Some_ex [of "Versions plugin" "osAndArchString env"]
    by (auto simp: supportsCurrentArch_spec)
  from selectVersion_not_found [OF this assms(2,3)] show ?thesis by simp
qed

theorem selectVersion_unknown_version_not_found_witness:
  "specSupported (osAndArchString exampleEnv) entry20
   \<and> normalizeVersion ''9.9.9'' = ''9.9.9''
   \<and> map Version (Versions exampleCatalog) = [''3.0'', ''2.0'', ''1.0'']
   \<and> snd (selectVersion exampleEnv exampleCatalog ''9.9.9'' ''10.1.0'') =
       Inl (ErrVersionNotFound ''test-plugin'' ''9.9.9'' ''grafana: v10.1.0 os: linux arch: amd64'')"
proof -
  have n: "normalizeVersion ''9.9.9'' = ''9.9.9''"
    by (simp add: normalizeVersion_def removeSpaces_def HasPrefix_def)
  have s: "specSupported (osAndArchString exampleEnv) entry20"
    by (simp add: specSupported_def fixture_defs)
  have m: "map Version (Versions exampleCatalog) = [''3.0'', ''2.0'', ''1.0'']"
    by (simp add: fixture_defs)
  from s have a: "\<exists>v\<in>set (Versions exampleCatalog). specSupported (osAndArchString exampleEnv) v"
    by (simp add: exampleCatalog_def)
  have b: "normalizeVersion ''9.9.9'' \<noteq> []" by (simp add: n)
  have c: "\<forall>v\<in>set (Versions exampleCatalog). Version v \<noteq> normalizeVersion ''9.9.9''"
    by (simp add: n fixture_defs)
  from selectVersion_unknown_version_not_found [OF a b c, of "''10.1.0''"]
  have "snd (selectVersion exampleEnv exampleCatalog ''9.9.9'' ''10.1.0'') =
       Inl (ErrVersionNotFound ''test-plugin'' ''9.9.9'' ''grafana: v10.1.0 os: linux arch: amd64'')"
    by (simp add: n exampleCatalog_def exampleEnv_def)
  with s n m show ?thesis by blast
qed

text \<open>
  C3 (amended). The search of \<^const>\<open>selectVersion\<close> stops at the first entry, in list order,
  whose version string equals the normalised request. When the request is not empty, some
  entry is supported, and that first match has a checksum map that is present and holds
  neither the current platform key nor \<open>any\<close>, the call fails with
  \<open>ErrVersionUnsupported\<close> carrying the plugin id, the normalised request and the system
  information; neither the entry nor the fallback is returned. Every catalog with an entry
  of the requested version splits at its first match (\<open>first_match_split\<close>).
\<close>

theorem selectVersion_first_match_unsupported:
  assumes "\<exists>v\<in>set (Versions plugin). specSupported (osAndArchString env) v"
    and "normalizeVersion version \<noteq> []"
    and "Versions plugin = pre @ e # post"
    and "\<forall>u\<in>set pre. Version u \<noteq> normalizeVersion version"
    and "Version e = normalizeVersion version"
    and "Arch e = Some m"
    and "osAndArchString env \<notin> fst ` set m"
    and "''any'' \<notin> fst ` set m"
  shows "snd (selectVersion env plugin version g) =
           Inl (ErrVersionUnsupported (ID plugin) (normalizeVersion version) (SystemInfo env g))"
proof -
  from assms(1) obtain f where f: "latestSupported (osAndArchString env) (Versions plugin) = Some f"
    using latestSupported_Some_ex [of "Versions plugin" "osAndArchString env"]
    by (auto simp: supportsCurrentArch_spec)
  have "\<not> supportsCurrentArch (osAndArchString env) e"
    using assms(6-8) by (simp add: supportsCurrentArch_spec specSupported_def)
  with selectVersion_found [OF f assms(2-5)] show ?thesis by simp
qed

theorem selectVersion_first_match_unsupported_witness:
  "specSupported (osAndArchString exampleEnv) entry10
   \<and> normalizeVersion ''v2.0'' = ''2.0''
   \<and> Versions mixedCatalog = [entry10] @ entry20win # []
   \<and> Version entry10 \<noteq> ''2.0''
   \<and> Version entry20win = ''2.0''
   \<and> Arch entry20win = Some [(''windows-amd64'', sha ''c4'')]
   \<and> osAndArchString exampleEnv = ''linux-amd64''
   \<and> snd (selectVersion exampleEnv mixedCatalog ''v2.0'' ''10.1.0'') =
       Inl (ErrVersionUnsupported ''test-plugin'' ''2.0'' ''grafana: v10.1.0 os: linux arch: amd64'')"
proof -
  have n: "normalizeVersion ''v2.0'' = ''2.0''"
    by (simp add: normalizeVersion_def removeSpaces_def HasPrefix_def)
  have s: "specSupported (osAndArchString exampleEnv) entry10"
    by (simp add: specSupported_def fixture_defs)
  have vs: "Versions mixedCatalog = [entry10] @ entry20win # []"
    by (simp add: mixedCatalog_def)
  have v1: "Version entry10 \<noteq> ''2.0''" by (simp add: entry10_def)
  have v2: "Version entry20win = ''2.0''" by (simp add: entry20win_def)
  have ar: "Arch entry20win = Some [(''windows-amd64'', sha ''c4'')]" by (simp add: entry20win_def)
  have pl: "osAndArchString exampleEnv = ''linux-amd64''" by (simp add: exampleEnv_def)
  have a: "\<exists>v\<in>set (Versions mixedCatalog). specSupported (osAndArchString exampleEnv) v"
    using s by (simp add: mixedCatalog_def)
  have b: "normalizeVersion ''v2.0'' \<noteq> []" by (simp add: n)
  have c: "\<forall>u\<in>set [entry10]. Version u \<noteq> normalizeVersion ''v2.0''" using v1 by (simp add: n)
  have d: "Version entry20win = normalizeVersion ''v2.0''" by (simp add: n v2)
  have e: "osAndArchString exampleEnv \<notin> fst ` set [(''windows-amd64'', sha ''c4'')]"
    by (simp add: pl)
  have f: "''any'' \<notin> fst ` set [(''windows-amd64'', sha ''c4'')]" by simp
  from selectVersion_first_match_unsupported [OF a b vs c d ar e f, of "''10.1.0''"]
  have "snd (selectVersion exampleEnv mixedCatalog ''v2.0'' ''10.1.0'') =
       Inl (ErrVersionUnsupported ''test-plugin'' ''2.0'' ''grafana: v10.1.0 os: linux arch: amd64'')"
    by (simp add: n mixedCatalog_def exampleEnv_def)
  with n s vs v1 v2 ar pl show ?thesis by blast
qed

text \<open>
  The condition has to be about the first match, not about any entry that matches. With
  two entries of the same version string, the second one built only for Windows, the
  request \<open>2.0\<close> on Linux matches that unsupported entry, and yet the call returns the
  first of the two, which is supported.
\<close>

theorem selectVersion_duplicate_version_counterexample:
  "entry20win \<in> set (Versions duplicateCatalog)
   \<and> Version entry20win = normalizeVersion ''2.0''
   \<and> Arch entry20win = Some [(''windows-amd64'', sha ''c4'')]
   \<and> osAndArchString exampleEnv = ''linux-amd64''
   \<and> specSupported (osAndArchString exampleEnv) entry20
   \<and> snd (selectVersion exampleEnv duplicateCatalog ''2.0'' ''10.1.0'') = Inr entry20"
  by (simp add: service_defs specSupported_def fixture_defs)

text \<open>
  C4. When no entry of the catalog is supported on the current platform, the empty
  catalog included, \<^const>\<open>selectVersion\<close> fails with \<open>ErrVersionUnsupported\<close> for
  every requested version string, also for one that names no entry; it logs nothing.
\<close>

theorem selectVersion_nothing_supported:
  assumes "\<forall>v\<in>set (Versions plugin). \<not> specSupported (osAndArchString env) v"
  shows "selectVersion env plugin version g =
     ([], Inl (ErrVersionUnsupported (ID plugin) (normalizeVersion version) (SystemInfo env g)))"
proof -
  from assms have "latestSupported (osAndArchString env) (Versions plugin) = None"
    by (simp add: latestSupported_None_iff supportsCurrentArch_spec)
  then show ?thesis by (rule selectVersion_no_fallback)
qed

theorem selectVersion_nothing_supported_witness:
  "Versions windowsOnlyCatalog = [entry30]
   \<and> \<not> specSupported (osAndArchString exampleEnv) entry30
   \<and> selectVersion exampleEnv windowsOnlyCatalog ''9.9.9'' ''10.1.0'' =
       ([], Inl (ErrVersionUnsupported ''test-plugin'' ''9.9.9''
                   ''grafana: v10.1.0 os: linux arch: amd64''))
   \<and> Versions emptyCatalog = []
   \<and> selectVersion exampleEnv emptyCatalog ''1.0'' ''10.1.0'' =
       ([], Inl (ErrVersionUnsupported ''test-plugin'' ''1.0''
                   ''grafana: v10.1.0 os: linux arch: amd64''))"
proof -
  have vs: "Versions windowsOnlyCatalog = [entry30]" by (simp add: windowsOnlyCatalog_def)
  have u: "\<not> specSupported (osAndArchString exampleEnv) entry30"
    by (simp add: specSupported_def fixture_defs)
  have a: "\<forall>v\<in>set (Versions windowsOnlyCatalog). \<not> specSupported (osAndArchString exampleEnv) v"
    using u by (simp add: vs)
  have es: "Versions emptyCatalog = []" by (simp add: emptyCatalog_def)
  have b: "\<forall>v\<in>set (Versions emptyCatalog). \<not> specSupported (osAndArchString exampleEnv) v"
    by (simp add: es)
  have n1: "normalizeVersion ''9.9.9'' = ''9.9.9''"
    by (simp add: normalizeVersion_def removeSpaces_def HasPrefix_def)
  have n2: "normalizeVersion ''1.0'' = ''1.0''"
    by (simp add: normalizeVersion_def removeSpaces_def HasPrefix_def)
  have r1: "selectVersion exampleEnv windowsOnlyCatalog ''9.9.9'' ''10.1.0'' =
       ([], Inl (ErrVersionUnsupported ''test-plugin'' ''9.9.9''
                   ''grafana: v10.1.0 os: linux arch: amd64''))"
    using selectVersion_nothing_supported [OF a, of "''9.9.9''" "''10.1.0''"]
    by (simp add: n1 windowsOnlyCatalog_def exampleEnv_def)
  have r2: "selectVersion exampleEnv emptyCatalog ''1.0'' ''10.1.0'' =
       ([], Inl (ErrVersionUnsupported ''test-plugin'' ''1.0''
                   ''grafana: v10.1.0 os: linux arch: amd64''))"
    using selectVersion_nothing_supported [OF b, of "''1.0''" "''10.1.0''"]
    by (simp add: n2 emptyCatalog_def exampleEnv_def)
  from vs u r1 es r2 show ?thesis by blast
qed

text \<open>
  C9. An entry whose checksum map is present and has no key is supported on no platform,
  whereas an entry without a map is supported on every platform; a catalog made only of
  entries with an empty map resolves to \<open>ErrVersionUnsupported\<close> for every request.
\<close>

theorem empty_arch_map_never_supported:
  "\<not> supportsCurrentArch plat (v\<lparr>Arch := Some []\<rparr>)
   \<and> supportsCurrentArch plat (v\<lparr>Arch := None\<rparr>)
   \<and> ((\<forall>u\<in>set (Versions plugin). Arch u = Some []) \<longrightarrow>
        snd (selectVersion env plugin version g) =
          Inl (ErrVersionUnsupported (ID plugin) (normalizeVersion version) (SystemInfo env g)))"
proof -
  have "latestSupported (osAndArchString env) (Versions plugin) = None"
    if "\<forall>u\<in>set (Versions plugin). Arch u = Some []"
    using that by (simp add: latestSupported_None_iff supportsCurrentArch_def)
  then show ?thesis
    by (simp add: supportsCurrentArch_def selectVersion_no_fallback)
qed

theorem empty_arch_map_never_supported_witness:
  "\<not> supportsCurrentArch ''linux-amd64'' entryEmptyArch
   \<and> Versions emptyArchCatalog = [entryEmptyArch]
   \<and> Arch entryEmptyArch = Some []
   \<and> snd (selectVersion exampleEnv emptyArchCatalog ''0.9'' ''10.1.0'') =
       Inl (ErrVersionUnsupported ''test-plugin'' ''0.9''
              ''grafana: v10.1.0 os: linux arch: amd64'')"
proof -
  have vs: "Versions emptyArchCatalog = [entryEmptyArch]" by (simp add: emptyArchCatalog_def)
  have ar: "Arch entryEmptyArch = Some []" by (simp add: entryEmptyArch_def)
  have ev: "entryEmptyArch\<lparr>Arch := Some []\<rparr> = entryEmptyArch" by (simp add: entryEmptyArch_def)
  have n: "normalizeVersion ''0.9'' = ''0.9''"
    by (simp add: normalizeVersion_def removeSpaces_def HasPrefix_def)
  note t = empty_arch_map_never_supported
             [of "''linux-amd64''" entryEmptyArch emptyArchCatalog exampleEnv "''0.9''" "''10.1.0''"]
  from t have u: "\<not> supportsCurrentArch ''linux-amd64'' entryEmptyArch" by (simp add: ev)
  from t have "snd (selectVersion exampleEnv emptyArchCatalog ''0.9'' ''10.1.0'') =
       Inl (ErrVersionUnsupported ''test-plugin'' ''0.9''
              ''grafana: v10.1.0 os: linux arch: amd64'')"
    by (simp add: vs ar n emptyArchCatalog_def exampleEnv_def)
  with u vs ar show ?thesis by blast
qed

section \<open>Properties of normalisation\<close>

text \<open>
  C5 (amended). \<^const>\<open>normalizeVersion\<close> removes every space character (byte 32) and
  keeps all other characters, then drops one leading \<open>^\<close> or \<open>v\<close> if there is
  one. Hence a request that reads \<open>2.0\<close>, \<open>^2.0\<close> or \<open>v2.0\<close> once its
  spaces are taken out is resolved exactly as the request \<open>2.0\<close> is.
\<close>

theorem normalizeVersion_spaces_then_prefix:
  "normalizeVersion s = specNormalize s
   \<and> CHR '' '' \<notin> set (normalizeVersion s)
   \<and> (removeSpaces s \<in> {''2.0'', ''^2.0'', ''v2.0''} \<longrightarrow>
        normalizeVersion s = ''2.0''
        \<and> selectVersion env plugin s g = selectVersion env plugin ''2.0'' g)"
proof -
  have sp: "CHR '' '' \<notin> set (normalizeVersion s)"
    by (auto simp: normalizeVersion_def removeSpaces_def Let_def dest: in_set_dropD)
  have n0: "normalizeVersion ''2.0'' = ''2.0''"
    by (simp add: normalizeVersion_def removeSpaces_def HasPrefix_def)
  have n: "normalizeVersion s = ''2.0''" if "removeSpaces s \<in> {''2.0'', ''^2.0'', ''v2.0''}"
    using that by (auto simp: normalizeVersion_def HasPrefix_def Let_def)
  have "selectVersion env plugin s g = selectVersion env plugin ''2.0'' g"
    if "removeSpaces s \<in> {''2.0'', ''^2.0'', ''v2.0''}"
    using n [OF that] n0 by (simp add: selectVersion_def)
  with sp n show ?thesis by (simp add: normalizeVersion_spec)
qed

theorem normalizeVersion_spaces_then_prefix_witness:
  "removeSpaces '' ^ 2 .0 '' = ''^2.0''
   \<and> normalizeVersion '' ^ 2 .0 '' = ''2.0''
   \<and> selectVersion exampleEnv exampleCatalog '' ^ 2 .0 '' ''10.1.0'' = ([], Inr entry20)"
proof -
  have r: "removeSpaces '' ^ 2 .0 '' = ''^2.0''" by (simp add: removeSpaces_def)
  have d: "selectVersion exampleEnv exampleCatalog ''2.0'' ''10.1.0'' = ([], Inr entry20)"
    by (simp add: service_defs fixture_defs)
  have m: "removeSpaces '' ^ 2 .0 '' \<in> {''2.0'', ''^2.0'', ''v2.0''}" by (simp add: r)
  from normalizeVersion_spaces_then_prefix
         [of "'' ^ 2 .0 ''" exampleEnv exampleCatalog "''10.1.0''"] m
  have "normalizeVersion '' ^ 2 .0 '' = ''2.0''
        \<and> selectVersion exampleEnv exampleCatalog '' ^ 2 .0 '' ''10.1.0'' =
            selectVersion exampleEnv exampleCatalog ''2.0'' ''10.1.0''"
    by blast
  with r d show ?thesis by simp
qed

text \<open>
  Only the space character is removed, not all whitespace: a tab inside the request
  survives normalisation, and the request then no longer matches the entry \<open>2.0\<close>.
\<close>

theorem normalizeVersion_keeps_tab_counterexample:
  "normalizeVersion tabbed20 = tabbed20
   \<and> CHR 0x09 \<in> set (normalizeVersion tabbed20)
   \<and> snd (selectVersion exampleEnv exampleCatalog ''2.0'' ''10.1.0'') = Inr entry20
   \<and> snd (selectVersion exampleEnv exampleCatalog tabbed20 ''10.1.0'') =
       Inl (ErrVersionNotFound ''test-plugin'' tabbed20 ''grafana: v10.1.0 os: linux arch: amd64'')"
  by (simp add: service_defs fixture_defs)

section \<open>Properties of the download options\<close>

text \<open>
  C6. Once a version is selected, \<^const>\<open>GetDownloadOptions\<close> succeeds, and its checksum
  is the hash stored under the current platform key if the map has that key, otherwise the
  hash stored under \<open>any\<close> if the map has that key, otherwise the empty string; an
  entry without a checksum map gets the empty string.
\<close>

theorem GetDownloadOptions_checksum:
  assumes "pluginMetadata env s pluginID (GrafanaVersion opts) = (l1, Inr plugin)"
    and "selectVersion env plugin version (GrafanaVersion opts) = (l2, Inr v)"
  shows "\<exists>d. GetDownloadOptions env s pluginID version opts = (l1 @ l2, Inr d)
           \<and> Checksum d =
               (case Arch v of
                  None \<Rightarrow> []
                | Some m \<Rightarrow>
                    (case map_of m (osAndArchString env) of
                       Some a \<Rightarrow> SHA256 a
                     | None \<Rightarrow> (case map_of m ''any'' of Some a \<Rightarrow> SHA256 a | None \<Rightarrow> [])))"
  using assms
  by (simp add: GetDownloadOptions_def buildDownloadOptions_def checksumFor_def zeroArchMeta_def
           split: option.splits)

theorem GetDownloadOptions_checksum_witness:
  "pluginMetadata exampleEnv ProvideService ''test-plugin'' (GrafanaVersion exampleOpts) =
     ([fetchLog ''test-plugin'' ''https://grafana.com/api/plugins''], Inr exampleCatalog)
   \<and> selectVersion exampleEnv exampleCatalog ''1.0'' (GrafanaVersion exampleOpts) = ([], Inr entry10)
   \<and> (\<exists>d. GetDownloadOptions exampleEnv ProvideService ''test-plugin'' ''1.0'' exampleOpts =
             ([fetchLog ''test-plugin'' ''https://grafana.com/api/plugins''], Inr d)
          \<and> Checksum d = ''c1'')"
proof -
  have a: "pluginMetadata exampleEnv ProvideService ''test-plugin'' (GrafanaVersion exampleOpts) =
     ([fetchLog ''test-plugin'' ''https://grafana.com/api/plugins''], Inr exampleCatalog)"
    by (simp add: pluginMetadata_def metadataURL_def exampleEnv_def exampleParse_def
                  ProvideService_def New_def grafanaComAPIRoot_def Let_def)
  have b: "selectVersion exampleEnv exampleCatalog ''1.0'' (GrafanaVersion exampleOpts) =
     ([], Inr entry10)"
    by (simp add: service_defs fixture_defs)
  from GetDownloadOptions_checksum [OF a b] a b
  show ?thesis by (simp add: entry10_def sha_def exampleEnv_def)
qed

text \<open>
  C7. The download options are a function of the selected entry, the plugin id and the
  platform alone: two calls that select the same entry for the same plugin id on the same
  platform return equal options, whatever the service, the request string and the rest of
  the environment are. The archive URL is exactly the constant root, a slash, the plugin
  id, \<open>/versions/\<close>, the version string and \<open>/download\<close>.
\<close>

theorem GetDownloadOptions_deterministic_url:
  assumes "pluginMetadata env1 s1 pluginID (GrafanaVersion opts1) = (a1, Inr p1)"
    and "selectVersion env1 p1 version1 (GrafanaVersion opts1) = (b1, Inr v)"
    and "pluginMetadata env2 s2 pluginID (GrafanaVersion opts2) = (a2, Inr p2)"
    and "selectVersion env2 p2 version2 (GrafanaVersion opts2) = (b2, Inr v)"
    and "osAndArchString env1 = osAndArchString env2"
  shows "snd (GetDownloadOptions env1 s1 pluginID version1 opts1) =
           snd (GetDownloadOptions env2 s2 pluginID version2 opts2)
         \<and> (\<exists>d. snd (GetDownloadOptions env1 s1 pluginID version1 opts1) = Inr d
                \<and> OptVersion d = Version v
                \<and> PluginZipURL d =
                    grafanaComAPIRoot @ ''/'' @ pluginID @ ''/versions/'' @ Version v
                    @ ''/download'')"
  using assms by (simp add: GetDownloadOptions_def buildDownloadOptions_def)

theorem GetDownloadOptions_deterministic_url_witness:
  "snd (pluginMetadata exampleEnv ProvideService ''test-plugin'' (GrafanaVersion exampleOpts)) =
     Inr exampleCatalog
   \<and> snd (selectVersion exampleEnv exampleCatalog ''v2.0'' (GrafanaVersion exampleOpts)) = Inr entry20
   \<and> snd (pluginMetadata exampleEnv mirrorService ''test-plugin'' (GrafanaVersion exampleOpts)) =
     Inr exampleCatalog
   \<and> snd (selectVersion exampleEnv exampleCatalog [] (GrafanaVersion exampleOpts)) = Inr entry20
   \<and> snd (GetDownloadOptions exampleEnv ProvideService ''test-plugin'' ''v2.0'' exampleOpts) =
       snd (GetDownloadOptions exampleEnv mirrorService ''test-plugin'' [] exampleOpts)
   \<and> snd (GetDownloadOptions exampleEnv ProvideService ''test-plugin'' ''v2.0'' exampleOpts) =
       Inr \<lparr>OptVersion = ''2.0'', Checksum = ''c2'',
            PluginZipURL = ''https://grafana.com/api/plugins/test-plugin/versions/2.0/download''\<rparr>"
proof -
  have a1: "pluginMetadata exampleEnv ProvideService ''test-plugin'' (GrafanaVersion exampleOpts) =
     ([fetchLog ''test-plugin'' ''https://grafana.com/api/plugins''], Inr exampleCatalog)"
    by (simp add: pluginMetadata_def metadataURL_def exampleEnv_def exampleParse_def
                  ProvideService_def New_def grafanaComAPIRoot_def Let_def)
  have b1: "selectVersion exampleEnv exampleCatalog ''v2.0'' (GrafanaVersion exampleOpts) =
     ([], Inr entry20)"
    by (simp add: service_defs fixture_defs)
  have a2: "pluginMetadata exampleEnv mirrorService ''test-plugin'' (GrafanaVersion exampleOpts) =
     ([fetchLog ''test-plugin'' ''https://grafana.com/api/v2/plugins''], Inr exampleCatalog)"
    by (simp add: pluginMetadata_def metadataURL_def exampleEnv_def exampleParse_def
                  mirrorService_def New_def Let_def)
  have b2: "selectVersion exampleEnv exampleCatalog [] (GrafanaVersion exampleOpts) =
     ([], Inr entry20)"
    by (simp add: service_defs fixture_defs)
  have c: "Checksum (buildDownloadOptions (osAndArchString exampleEnv) entry20 ''test-plugin'') = ''c2''"
    by (simp add: service_defs fixture_defs)
  from GetDownloadOptions_deterministic_url [OF a1 b1 a2 b2 refl]
  obtain d where e: "snd (GetDownloadOptions exampleEnv ProvideService ''test-plugin'' ''v2.0'' exampleOpts) =
           snd (GetDownloadOptions exampleEnv mirrorService ''test-plugin'' [] exampleOpts)"
    and d: "snd (GetDownloadOptions exampleEnv ProvideService ''test-plugin'' ''v2.0'' exampleOpts) = Inr d"
      "OptVersion d = Version entry20"
      "PluginZipURL d = grafanaComAPIRoot @ ''/'' @ ''test-plugin'' @ ''/versions/'' @ Version entry20
                    @ ''/download''"
    by blast
  from d(1) a1 b1 have "d = buildDownloadOptions (osAndArchString exampleEnv) entry20 ''test-plugin''"
    by (simp add: GetDownloadOptions_def)
  with c have "Checksum d = ''c2''" by simp
  with d(2,3) have "d = \<lparr>OptVersion = ''2.0'', Checksum = ''c2'',
            PluginZipURL = ''https://grafana.com/api/plugins/test-plugin/versions/2.0/download''\<rparr>"
    by (cases d) (simp add: entry20_def grafanaComAPIRoot_def)
  with e d(1) a1 b1 a2 b2 show ?thesis by simp
qed




section \<open>What a failed resolution reports\<close>

text \<open>
  C8 (amended). When a request for a specific version fails while a fallback exists, the
  fallback's version string occurs in the debug line that \<^const>\<open>selectVersion\<close> logs
  just before it fails. The fields of the error returned to the caller are the plugin id,
  the normalised request and the system information.
\<close>

theorem selectVersion_failure_logs_fallback:
  assumes "latestSupportedVersion (osAndArchString env) plugin = Some f"
    and "normalizeVersion version \<noteq> []"
    and "selectVersion env plugin version g = (l, Inl e)"
  shows "logMentions l (Version f)
         \<and> errorFields e = [ID plugin, normalizeVersion version, SystemInfo env g]
         \<and> (l = [notFoundLog (ID plugin) (normalizeVersion version) (Version f)]
            \<or> l = [unsupportedLog (ID plugin) (normalizeVersion version) (Version f)])"
proof -
  from assms(1) have "latestSupported (osAndArchString env) (Versions plugin) = Some f"
    by (simp add: latestSupportedVersion_def)
  from selectVersion_cases [OF this assms(2,3)] show ?thesis
    by (auto simp: logMentions_def sublist_notFoundLog sublist_unsupportedLog)
qed

theorem selectVersion_failure_logs_fallback_witness:
  "latestSupportedVersion (osAndArchString exampleEnv) exampleCatalog = Some entry20
   \<and> normalizeVersion ''9.9.9'' = ''9.9.9''
   \<and> selectVersion exampleEnv exampleCatalog ''9.9.9'' ''10.1.0'' =
       ([notFoundLog ''test-plugin'' ''9.9.9'' ''2.0''],
        Inl (ErrVersionNotFound ''test-plugin'' ''9.9.9''
               ''grafana: v10.1.0 os: linux arch: amd64''))
   \<and> logMentions [notFoundLog ''test-plugin'' ''9.9.9'' ''2.0''] ''2.0''"
proof -
  have a: "latestSupportedVersion (osAndArchString exampleEnv) exampleCatalog = Some entry20"
    by (simp add: service_defs fixture_defs)
  have n: "normalizeVersion ''9.9.9'' = ''9.9.9''"
    by (simp add: normalizeVersion_def removeSpaces_def HasPrefix_def)
  have b: "normalizeVersion ''9.9.9'' \<noteq> []" by (simp add: n)
  have c: "selectVersion exampleEnv exampleCatalog ''9.9.9'' ''10.1.0'' =
       ([notFoundLog ''test-plugin'' ''9.9.9'' ''2.0''],
        Inl (ErrVersionNotFound ''test-plugin'' ''9.9.9''
               ''grafana: v10.1.0 os: linux arch: amd64''))"
    by (simp add: service_defs fixture_defs)
  have v: "Version entry20 = ''2.0''" by (simp add: entry20_def)
  from selectVersion_failure_logs_fallback [OF a b c]
  have "logMentions [notFoundLog ''test-plugin'' ''9.9.9'' ''2.0''] (Version entry20)"
    by blast
  then have "logMentions [notFoundLog ''test-plugin'' ''9.9.9'' ''2.0''] ''2.0''"
    by (simp only: v)
  with a n c show ?thesis by blast
qed

text \<open>
  The error value need not reference the fallback: for the request \<open>9.9.9\<close> against
  a catalog whose fallback is \<open>2.0\<close>, no field of the error contains \<open>2.0\<close>.
  (Where the request happens to contain the fallback's version string, as \<open>12.0\<close>
  contains \<open>2.0\<close>, the field that holds the request contains it too.)
\<close>

theorem selectVersion_error_omits_fallback_counterexample:
  "latestSupportedVersion (osAndArchString exampleEnv) exampleCatalog = Some entry20
   \<and> Version entry20 = ''2.0''
   \<and> snd (selectVersion exampleEnv exampleCatalog ''9.9.9'' ''10.1.0'') =
       Inl (ErrVersionNotFound ''test-plugin'' ''9.9.9''
              ''grafana: v10.1.0 os: linux arch: amd64'')
   \<and> \<not> errorMentions (ErrVersionNotFound ''test-plugin'' ''9.9.9''
                          ''grafana: v10.1.0 os: linux arch: amd64'') ''2.0''"
proof -
  have a: "latestSupportedVersion (osAndArchString exampleEnv) exampleCatalog = Some entry20"
    by (simp add: service_defs fixture_defs)
  have b: "Version entry20 = ''2.0''" by (simp add: entry20_def)
  have c: "snd (selectVersion exampleEnv exampleCatalog ''9.9.9'' ''10.1.0'') =
       Inl (ErrVersionNotFound ''test-plugin'' ''9.9.9''
              ''grafana: v10.1.0 os: linux arch: amd64'')"
    by (simp add: service_defs fixture_defs)
  have d: "\<not> errorMentions (ErrVersionNotFound ''test-plugin'' ''9.9.9''
                          ''grafana: v10.1.0 os: linux arch: amd64'') ''2.0''"
    by (simp add: errorMentions_def sublist_Cons_right)
  from a b c d show ?thesis by blast
qed

end
